theory Spec2Isabelle
  imports Complex_Main
begin

section \<open>Numbers and dates\<close>

text \<open>
  The service is TypeScript. A JavaScript \<open>number\<close> is modelled as an exact real:
  the binary rounding of IEEE doubles, \<open>NaN\<close> and the infinities are outside the model.
  Integer database columns are \<open>int\<close> and are injected with \<open>of_int\<close> where the
  code does arithmetic on them.
\<close>

definition Math_round :: "real \<Rightarrow> real" where
  \<comment> \<open>\<open>Math.round\<close>: the nearest integer, a tie going up.\<close>
  "Math_round x = of_int \<lfloor>x + 1 / 2\<rfloor>"

text \<open>
  A \<open>Date\<close> is its time value, the milliseconds since the epoch. \<open>getHours\<close> and
  \<open>getDay\<close> read the host's local time; the host's zone is taken to be UTC.
  1 January 1970 was a Thursday, day 4 of the week that starts on Sunday with 0.
\<close>

type_synonym date = int

definition getHours :: "date \<Rightarrow> int" where
  "getHours t = (t div 3600000) mod 24"

definition getDay :: "date \<Rightarrow> int" where
  "getDay t = (t div 86400000 + 4) mod 7"

section \<open>Data model\<close>

datatype status = Open | Closed | Down | Delayed

text \<open>
  A row of \<open>attractions\<close>, with the columns the engine reads. \<open>a_thrill_level\<close> is
  \<open>attraction.details?.thrill_level\<close>, absent when the JSON has no such field;
  \<open>a_wait_time\<close> is the nullable integer column \<open>wait_time\<close>.
\<close>

record attraction =
  a_id :: string
  a_park_id :: string
  a_type :: string
  a_current_status :: status
  a_wait_time :: "int option"
  a_thrill_level :: "int option"

text \<open>A row of \<open>wait_times\<close>; \<open>h_timestamp\<close> is the parsed \<open>timestamp\<close> column.\<close>

record wait_time =
  h_attraction_id :: string
  h_wait_minutes :: int
  h_timestamp :: date

text \<open>
  The JSON object \<open>current_conditions\<close> of a \<open>weather_data\<close> row: a field is
  \<open>None\<close> when the object does not have it.
\<close>

record conditions =
  temperature :: "real option"
  humidity :: "real option"
  precipitation :: "real option"
  wind_speed :: "real option"

record weather_row =
  w_park_id :: string
  w_timestamp :: date
  w_current_conditions :: conditions

record window_prediction =
  predicted_wait :: real
  confidence :: real

section \<open>Weather impact scorer: the comfort index\<close>

definition calculateComfortIndex :: "real \<Rightarrow> real \<Rightarrow> real \<Rightarrow> real" where
  "calculateComfortIndex temperature_c humidity_pct windSpeed =
     (let tempF = (temperature_c * 9 / 5) + 32;
          comfort = 100;
          comfort = (if tempF < 60 \<or> tempF > 90
                     then comfort - \<bar>75 - tempF\<bar> * 2 else comfort);
          comfort = (if humidity_pct < 30 \<or> humidity_pct > 70
                     then comfort - \<bar>50 - humidity_pct\<bar> * 0.5 else comfort);
          windChillFactor = (if windSpeed > 5 then max 0.9 (1 - (windSpeed * 0.02)) else 1);
          comfort = comfort * windChillFactor
      in max 0 (min 100 (Math_round comfort)))"

text \<open>
  The same index written after the specification's sentences: start at 100, subtract
  the temperature penalty outside 60..90 degrees Fahrenheit, subtract the humidity
  penalty outside 30..70 percent, scale by the wind factor above 5, then clamp to
  0..100 and round.
\<close>

definition comfortIndex_spec :: "real \<Rightarrow> real \<Rightarrow> real \<Rightarrow> real" where
  "comfortIndex_spec temperature_c humidity_pct windSpeed =
     (let tempF = temperature_c * 9 / 5 + 32;
          s0 = 100;
          s1 = (if 60 \<le> tempF \<and> tempF \<le> 90 then s0 else s0 - 2 * \<bar>75 - tempF\<bar>);
          s2 = (if 30 \<le> humidity_pct \<and> humidity_pct \<le> 70
                then s1 else s1 - 0.5 * \<bar>50 - humidity_pct\<bar>);
          s3 = (if windSpeed > 5 then s2 * max 0.9 (1 - 0.02 * windSpeed) else s2)
      in Math_round (max 0 (min 100 s3)))"

section \<open>Wait-time estimator: one look-ahead window\<close>

text \<open>
  \<open>predictWaitTime\<close> is a chain of adjustments of the pair \<open>(prediction, confidence)\<close>.
  Each block of the source is one function here, so that the values between the blocks
  can be named.
\<close>

definition timeOfDayAdjust :: "int \<Rightarrow> real \<Rightarrow> real" where
  "timeOfDayAdjust hour prediction =
     (if hour \<ge> 11 \<and> hour \<le> 15 then prediction * 1.3
      else if hour \<ge> 16 \<and> hour \<le> 20 then prediction * 1.1
      else if hour \<le> 9 \<or> hour \<ge> 21 then prediction * 0.7
      else prediction)"

definition dayOfWeekAdjust :: "int \<Rightarrow> real \<Rightarrow> real" where
  "dayOfWeekAdjust dayOfWeek prediction =
     (if dayOfWeek = 0 \<or> dayOfWeek = 6 then prediction * 1.2 else prediction)"

definition orElse :: "'a::zero option \<Rightarrow> 'a \<Rightarrow> 'a" where
  \<comment> \<open>\<open>x || d\<close> on a number that may be missing: \<open>undefined\<close>, \<open>null\<close> and \<open>0\<close> are falsy.\<close>
  "orElse x d = (case x of None \<Rightarrow> d | Some v \<Rightarrow> if v = 0 then d else v)"

definition thrillAdjust :: "attraction \<Rightarrow> real \<Rightarrow> real" where
  "thrillAdjust attraction prediction =
     (let thrillLevel = orElse (a_thrill_level attraction) 3
      in if thrillLevel \<ge> 4 then prediction * 1.1 else prediction)"

definition weatherAdjust ::
  "conditions option \<Rightarrow> attraction \<Rightarrow> real \<times> real \<Rightarrow> real \<times> real" where
  "weatherAdjust weather attraction pc =
     (case weather of
        None \<Rightarrow> pc
      | Some w \<Rightarrow>
          (let prediction = fst pc; confidence = snd pc;
               temp = orElse (temperature w) 25;
               precip = orElse (precipitation w) 0;
               prediction =
                 (if temp > 30
                  then (if a_type attraction = ''dark_ride''
                        then prediction * 1.2 else prediction * 0.9)
                  else prediction)
           in if precip > 0
              then (if a_type attraction = ''dark_ride'' \<or> a_type attraction = ''show''
                    then (prediction * 1.5, confidence * 0.9)
                    else (prediction * 0.6, confidence * 0.8))
              else (prediction, confidence)))"

definition tempFactor :: "conditions \<Rightarrow> attraction \<Rightarrow> real" where
  \<comment> \<open>The factor that the temperature branch of \<open>weatherAdjust\<close> multiplies by.\<close>
  "tempFactor w a =
     (if orElse (temperature w) 25 > 30
      then (if a_type a = ''dark_ride'' then 1.2 else 0.9) else 1)"

definition similarTimes :: "int \<Rightarrow> wait_time list \<Rightarrow> wait_time list" where
  "similarTimes hour history =
     filter (\<lambda>h. \<bar>getHours (h_timestamp h) - hour\<bar> \<le> 1) history"

definition avgHistoricalWait :: "wait_time list \<Rightarrow> real" where
  \<comment> \<open>Only called on a non-empty list.\<close>
  "avgHistoricalWait sims =
     of_int (foldl (\<lambda>sum h. sum + h_wait_minutes h) 0 sims) / of_nat (length sims)"

definition historyAdjust :: "int \<Rightarrow> wait_time list \<Rightarrow> real \<times> real \<Rightarrow> real \<times> real" where
  "historyAdjust hour history pc =
     (let prediction = fst pc; confidence = snd pc
      in if length history > 0
         then (let sims = similarTimes hour history
               in if length sims > 0
                  then ((prediction * 0.7) + (avgHistoricalWait sims * 0.3), confidence * 1.1)
                  else (prediction, confidence * 0.9))
         else (prediction, confidence))"

definition preBlend ::
  "int \<Rightarrow> int \<Rightarrow> real \<Rightarrow> conditions option \<Rightarrow> attraction \<Rightarrow> real \<times> real" where
  \<comment> \<open>\<open>(prediction, confidence)\<close> when control reaches "Historical pattern matching".\<close>
  "preBlend hour dayOfWeek currentWait weather attraction =
     (let prediction = currentWait;
          confidence = 0.8;
          prediction = timeOfDayAdjust hour prediction;
          prediction = dayOfWeekAdjust dayOfWeek prediction;
          prediction = thrillAdjust attraction prediction
      in weatherAdjust weather attraction (prediction, confidence))"

definition preJitter ::
  "int \<Rightarrow> int \<Rightarrow> real \<Rightarrow> wait_time list \<Rightarrow> conditions option \<Rightarrow> attraction \<Rightarrow> real \<times> real" where
  \<comment> \<open>\<open>(prediction, confidence)\<close> when control reaches "Apply randomness".\<close>
  "preJitter hour dayOfWeek currentWait history weather attraction =
     historyAdjust hour history (preBlend hour dayOfWeek currentWait weather attraction)"

definition predictWaitTime ::
  "date \<Rightarrow> real \<Rightarrow> string \<Rightarrow> real \<Rightarrow> int \<Rightarrow> wait_time list \<Rightarrow> conditions option
     \<Rightarrow> attraction \<Rightarrow> window_prediction" where
  \<comment> \<open>\<open>now\<close> is what \<open>new Date()\<close> returns and \<open>u\<close> what \<open>Math.random()\<close> returns.\<close>
  "predictWaitTime now u attractionId currentWait minutesAhead history weather attraction =
     (let futureTime = now + minutesAhead * 60 * 1000;
          hour = getHours futureTime;
          dayOfWeek = getDay futureTime;
          pc = preJitter hour dayOfWeek currentWait history weather attraction;
          prediction = fst pc; confidence = snd pc;
          variance = 0.1;
          randomFactor = 1 + (u - 0.5) * variance;
          prediction = prediction * randomFactor;
          prediction = max 0 (min 180 (Math_round prediction));
          confidence = max 0.3 (min 1.0 confidence)
      in \<lparr> predicted_wait = prediction,
           confidence = Math_round (confidence * 100) / 100 \<rparr>)"

section \<open>Wait-time estimator: the collaborators\<close>

text \<open>
  The engine reads three tables through a query builder. A table is the list of its
  rows in storage order; a filter keeps the matching rows, an ordering is a stable sort,
  a limit is a prefix. Each of the four lookups of one estimate can fail upstream, and
  then answers with an error and no data. The wall clock and the random source are read
  several times during one estimate: \<open>clock e k\<close> is the \<open>k\<close>-th reading of the clock
  (counted from 0) and \<open>draws e k\<close> the \<open>k\<close>-th value of \<open>Math.random()\<close>.
\<close>

datatype lookup = AttractionLookup | HistoryLookup | WeatherLookup | AlternativesLookup

datatype pg_error = UpstreamUnavailable | NotSingleRow

datatype 'a response = Response (data: "'a option") (error: "pg_error option")

record env =
  attractions :: "attraction list"
  wait_times :: "wait_time list"
  weather_data :: "weather_row list"
  unavailable :: "lookup \<Rightarrow> bool"
  clock :: "nat \<Rightarrow> date"
  draws :: "nat \<Rightarrow> real"

definition single :: "'a list \<Rightarrow> 'a response" where
  \<comment> \<open>\<open>.single()\<close>: the one row of the result, an error when there are none or several.\<close>
  "single rows =
     (case rows of
        [r] \<Rightarrow> Response (Some r) None
      | _ \<Rightarrow> Response None (Some NotSingleRow))"

definition attractionById :: "env \<Rightarrow> string \<Rightarrow> attraction response" where
  "attractionById e attractionId =
     (if unavailable e AttractionLookup then Response None (Some UpstreamUnavailable)
      else single (filter (\<lambda>a. a_id a = attractionId) (attractions e)))"

definition recentHistory :: "env \<Rightarrow> date \<Rightarrow> string \<Rightarrow> wait_time list response" where
  \<comment> \<open>The last 7 days of one attraction, newest first, at most 168 rows.\<close>
  "recentHistory e now attractionId =
     (if unavailable e HistoryLookup then Response None (Some UpstreamUnavailable)
      else Response
             (Some (take 168
                (sort_key (\<lambda>h. - h_timestamp h)
                   (filter (\<lambda>h. h_attraction_id h = attractionId
                                \<and> h_timestamp h \<ge> now - 7 * 24 * 60 * 60 * 1000)
                      (wait_times e)))))
             None)"

definition latestWeather :: "env \<Rightarrow> string \<Rightarrow> weather_row response" where
  "latestWeather e parkId =
     (if unavailable e WeatherLookup then Response None (Some UpstreamUnavailable)
      else single (take 1
             (sort_key (\<lambda>w. - w_timestamp w)
                (filter (\<lambda>w. w_park_id w = parkId) (weather_data e)))))"

definition waitOf :: "attraction \<Rightarrow> int" where
  \<comment> \<open>The sort key of \<open>order('wait_time')\<close>; it is only used on rows whose wait is not null.\<close>
  "waitOf a = (case a_wait_time a of None \<Rightarrow> 0 | Some w \<Rightarrow> w)"

definition alternativesQuery :: "env \<Rightarrow> string \<Rightarrow> string \<Rightarrow> int \<Rightarrow> attraction list response" where
  "alternativesQuery e parkId attractionType currentWait =
     (if unavailable e AlternativesLookup then Response None (Some UpstreamUnavailable)
      else Response
             (Some (take 3
                (sort_key waitOf
                   (filter (\<lambda>a. a_park_id a = parkId
                                \<and> a_type a = attractionType
                                \<and> a_current_status a = Open
                                \<and> (case a_wait_time a of None \<Rightarrow> False
                                    | Some w \<Rightarrow> w < currentWait))
                      (attractions e)))))
             None)"

definition findAlternativeAttractions :: "env \<Rightarrow> string \<Rightarrow> string \<Rightarrow> int \<Rightarrow> string list" where
  "findAlternativeAttractions e parkId attractionType currentWait =
     (let r = alternativesQuery e parkId attractionType currentWait
      in case (error r, data r) of
           (None, Some alternatives) \<Rightarrow> map a_id alternatives
         | _ \<Rightarrow> [])"

section \<open>Wait-time estimator: the whole estimate\<close>

definition exceeds :: "real option \<Rightarrow> real \<Rightarrow> bool" where
  \<comment> \<open>\<open>x > b\<close> on a field that may be missing: \<open>undefined > b\<close> is false.\<close>
  "exceeds x b = (case x of None \<Rightarrow> False | Some v \<Rightarrow> v > b)"

definition below :: "real option \<Rightarrow> real \<Rightarrow> bool" where
  "below x b = (case x of None \<Rightarrow> False | Some v \<Rightarrow> v < b)"

definition generatePredictionFactors ::
  "date \<Rightarrow> wait_time list \<Rightarrow> conditions option \<Rightarrow> attraction \<Rightarrow> string list" where
  \<comment> \<open>\<open>now\<close> is what \<open>new Date()\<close> returns.\<close>
  "generatePredictionFactors now history weather attraction =
     (let factors = [''historical_patterns'', ''time_of_day''];
          factors =
            (case weather of
               None \<Rightarrow> factors
             | Some w \<Rightarrow>
                 (let factors = factors @ [''weather_conditions''];
                      factors = (if exceeds (precipitation w) 0
                                 then factors @ [''precipitation''] else factors)
                  in if exceeds (temperature w) 30 \<or> below (temperature w) 10
                     then factors @ [''temperature_extreme''] else factors));
          factors = (if (case a_thrill_level attraction of None \<Rightarrow> False | Some l \<Rightarrow> l \<ge> 4)
                     then factors @ [''high_thrill_attraction''] else factors);
          factors = (if getDay now = 0 \<or> getDay now = 6
                     then factors @ [''weekend''] else factors)
      in if getHours now \<ge> 11 \<and> getHours now \<le> 15
         then factors @ [''peak_hours''] else factors)"

record wait_time_prediction =
  attraction_id :: string
  current_wait :: int
  predictions :: "int \<rightharpoonup> window_prediction"
  factors :: "string list"
  alternative_attractions :: "string list"
  last_updated :: date
  confidence_interval :: string

text \<open>
  The loop over the requested windows. The result object is keyed by
  \<open>minutes.toString()\<close>, which is one-to-one on integers, so the model keys it by the
  integer; a window requested twice overwrites its entry. Window number \<open>k\<close> reads the
  clock for the \<open>(k+1)\<close>-th time (the history lookup read it first) and draws the
  \<open>k\<close>-th random number.
\<close>

fun predictEach ::
  "env \<Rightarrow> string \<Rightarrow> int \<Rightarrow> wait_time list \<Rightarrow> conditions option \<Rightarrow> attraction
     \<Rightarrow> nat \<Rightarrow> int list \<Rightarrow> (int \<rightharpoonup> window_prediction) \<Rightarrow> (int \<rightharpoonup> window_prediction)" where
  "predictEach e attractionId currentWait history weather attraction k [] acc = acc"
| "predictEach e attractionId currentWait history weather attraction k (minutes # rest) acc =
     predictEach e attractionId currentWait history weather attraction (Suc k) rest
       (acc(minutes \<mapsto>
          predictWaitTime (clock e (Suc k)) (draws e k) attractionId (of_int currentWait)
            minutes history weather attraction))"

definition generateWaitTimePrediction ::
  "env \<Rightarrow> string \<Rightarrow> int list \<Rightarrow> wait_time_prediction option" where
  \<comment> \<open>\<open>None\<close> is the source's \<open>null\<close>.\<close>
  "generateWaitTimePrediction e attractionId timeWindows =
     (let ra = attractionById e attractionId
      in case (error ra, data ra) of
           (None, Some attraction) \<Rightarrow>
             (let rh = recentHistory e (clock e 0) attractionId
              in if error rh \<noteq> None then None
                 else
                   (let waitTimeHistory = (case data rh of None \<Rightarrow> [] | Some rows \<Rightarrow> rows);
                        weatherData = data (latestWeather e (a_park_id attraction));
                        weather = map_option w_current_conditions weatherData;
                        currentWait = orElse (a_wait_time attraction) 0;
                        n = length timeWindows;
                        preds = predictEach e attractionId currentWait waitTimeHistory
                                  weather attraction 0 timeWindows Map.empty;
                        fs = generatePredictionFactors (clock e (Suc n)) waitTimeHistory
                               weather attraction;
                        alternatives = findAlternativeAttractions e (a_park_id attraction)
                                         (a_type attraction) currentWait
                    in Some \<lparr> attraction_id = attractionId,
                              current_wait = currentWait,
                              predictions = preds,
                              factors = fs,
                              alternative_attractions = alternatives,
                              last_updated = clock e (Suc (Suc n)),
                              confidence_interval =
                                CHR 0xC2 # CHR 0xB1 # ''10 minutes'' \<rparr>))
         | _ \<Rightarrow> None)"

text \<open>
  Names for two local constants of \<open>generateWaitTimePrediction\<close>, used to state its
  properties: \<open>waitTimeHistory || []\<close> and \<open>weatherData?.current_conditions\<close>.
\<close>

definition historyOf :: "env \<Rightarrow> string \<Rightarrow> wait_time list" where
  "historyOf e attractionId =
     (case data (recentHistory e (clock e 0) attractionId) of None \<Rightarrow> [] | Some rows \<Rightarrow> rows)"

definition weatherOf :: "env \<Rightarrow> attraction \<Rightarrow> conditions option" where
  "weatherOf e attraction =
     map_option w_current_conditions (data (latestWeather e (a_park_id attraction)))"

section \<open>Sample data\<close>

text \<open>
  Wednesday 10 January 2024, 12:50:00 UTC: a quarter of an hour later the hour of day
  is 13.
\<close>

definition wednesday_1250 :: date where
  "wednesday_1250 = 1704891000000"

definition obs :: "int \<Rightarrow> date \<Rightarrow> wait_time" where
  "obs w t = \<lparr> h_attraction_id = ''coaster'', h_wait_minutes = w, h_timestamp = t \<rparr>"

definition ride :: "string \<Rightarrow> string \<Rightarrow> int option \<Rightarrow> attraction" where
  "ride i ty w =
     \<lparr> a_id = i, a_park_id = ''park'', a_type = ty, a_current_status = Open,
       a_wait_time = w, a_thrill_level = Some 5 \<rparr>"

definition rain :: conditions where
  "rain = \<lparr> temperature = Some 22, humidity = Some 80, precipitation = Some 2,
            wind_speed = Some 10 \<rparr>"

definition sample_env :: env where
  "sample_env =
     \<lparr> attractions = [ride ''coaster'' ''roller_coaster'' (Some 40),
                       ride ''mouse'' ''roller_coaster'' (Some 25),
                       ride ''comet'' ''roller_coaster'' (Some 10),
                       ride ''viper'' ''roller_coaster'' (Some 30),
                       ride ''goliath'' ''roller_coaster'' (Some 35),
                       ride ''titan'' ''roller_coaster'' (Some 55),
                       ride ''manor'' ''dark_ride'' (Some 5)],
       wait_times = [obs 30 1704880000000],
       weather_data = [\<lparr> w_park_id = ''park'', w_timestamp = 1704890000000,
                          w_current_conditions = rain \<rparr>],
       unavailable = (\<lambda>q. False),
       clock = (\<lambda>k. wednesday_1250),
       draws = (\<lambda>k. 1 / 2) \<rparr>"

definition history_down :: env where
  "history_down = sample_env\<lparr>unavailable := (\<lambda>q. q = HistoryLookup)\<rparr>"

definition weather_down :: env where
  "weather_down = sample_env\<lparr>unavailable := (\<lambda>q. q = WeatherLookup)\<rparr>"

text \<open>
  A second store: one more observation, of another attraction, and a clock and a random
  source that differ from the first store's only after the readings that an estimate
  for two windows consumes.
\<close>

definition sample_env2 :: env where
  "sample_env2 =
     sample_env\<lparr> wait_times := wait_times sample_env @
                     [\<lparr> h_attraction_id = ''mouse'', h_wait_minutes = 20,
                        h_timestamp = 1704888000000 \<rparr>],
                   clock := (\<lambda>k. if k \<le> 4 then wednesday_1250 else wednesday_1250 + 60000),
                   draws := (\<lambda>k. if k < 2 then 1 / 2 else 9 / 10) \<rparr>"

section \<open>Properties of one window\<close>

lemma Math_round_Ints: "Math_round x \<in> \<int>"
  by (simp add: Math_round_def)

lemma Math_round_mono: "x \<le> y \<Longrightarrow> Math_round x \<le> Math_round y"
  unfolding Math_round_def by (simp add: floor_mono)

lemma Math_round_of_int: "Math_round (of_int k) = of_int k"
proof -
  have "\<lfloor>(of_int k :: real) + 1 / 2\<rfloor> = k" by linarith
  then show ?thesis by (simp add: Math_round_def)
qed

lemma predicted_wait_unfold:
  "predicted_wait (predictWaitTime now u aid cw m hist weather attr)
     = max 0 (min 180 (Math_round
         (fst (preJitter (getHours (now + m * 60 * 1000)) (getDay (now + m * 60 * 1000))
                 cw hist weather attr) * (1 + (u - 0.5) * 0.1))))"
  by (simp add: predictWaitTime_def Let_def)

lemma confidence_unfold:
  "confidence (predictWaitTime now u aid cw m hist weather attr)
     = Math_round (max 0.3 (min 1.0
         (snd (preJitter (getHours (now + m * 60 * 1000)) (getDay (now + m * 60 * 1000))
                 cw hist weather attr))) * 100) / 100"
  by (simp add: predictWaitTime_def Let_def)

text \<open>
  C3. Whatever the clock, the draw, the current wait, the window, the history, the
  weather and the attraction are, the result of \<open>predictWaitTime\<close> has an integer
  \<open>predicted_wait\<close> between 0 and 180 and a \<open>confidence\<close> between 0.3 and 1.
\<close>

theorem predictWaitTime_bounds:
  "predicted_wait (predictWaitTime now u aid cw m hist weather attr) \<in> \<int>
   \<and> 0 \<le> predicted_wait (predictWaitTime now u aid cw m hist weather attr)
   \<and> predicted_wait (predictWaitTime now u aid cw m hist weather attr) \<le> 180
   \<and> 0.3 \<le> confidence (predictWaitTime now u aid cw m hist weather attr)
   \<and> confidence (predictWaitTime now u aid cw m hist weather attr) \<le> 1.0"
proof -
  obtain p where pw: "predicted_wait (predictWaitTime now u aid cw m hist weather attr)
      = max 0 (min 180 (Math_round p))"
    using predicted_wait_unfold by blast
  obtain c where cf: "confidence (predictWaitTime now u aid cw m hist weather attr)
      = Math_round (max 0.3 (min 1.0 c) * 100) / 100"
    using confidence_unfold by blast
  have "max 0 (min 180 (Math_round p)) \<in> \<int>"
    using Math_round_Ints [of p] by (simp add: max_def min_def)
  moreover have "0 \<le> max 0 (min 180 (Math_round p))" by simp
  moreover have "max 0 (min 180 (Math_round p)) \<le> 180" by simp
  moreover have "0.3 \<le> Math_round (max 0.3 (min 1.0 c) * 100) / 100"
  proof -
    have "(30::real) \<le> max 0.3 (min 1.0 c) * 100" by simp
    from Math_round_mono [OF this] have "30 \<le> Math_round (max 0.3 (min 1.0 c) * 100)"
      using Math_round_of_int [of 30] by simp
    then show ?thesis by simp
  qed
  moreover have "Math_round (max 0.3 (min 1.0 c) * 100) / 100 \<le> 1.0"
  proof -
    have "max 0.3 (min 1.0 c) * 100 \<le> (100::real)" by simp
    from Math_round_mono [OF this] have "Math_round (max 0.3 (min 1.0 c) * 100) \<le> 100"
      using Math_round_of_int [of 100] by simp
    then show ?thesis by simp
  qed
  ultimately show ?thesis unfolding pw cf by blast
qed

section \<open>The comfort index\<close>

lemma Math_round_clamp:
  "Math_round (max 0 (min 100 x)) = max 0 (min 100 (Math_round x))"
proof -
  consider "x \<le> 0" | "100 \<le> x" | "0 < x" "x < 100" by linarith
  then show ?thesis
  proof cases
    case 1
    from Math_round_mono [OF 1] have "Math_round x \<le> 0"
      using Math_round_of_int [of 0] by simp
    with 1 show ?thesis using Math_round_of_int [of 0] by (simp add: max_def min_def)
  next
    case 2
    from Math_round_mono [OF 2] have "100 \<le> Math_round x"
      using Math_round_of_int [of 100] by simp
    with 2 show ?thesis using Math_round_of_int [of 100] by (simp add: max_def min_def)
  next
    case 3
    from 3 have a: "(0::real) \<le> x" and b: "x \<le> 100" by simp_all
    from Math_round_mono [OF a] have "0 \<le> Math_round x"
      using Math_round_of_int [of 0] by simp
    moreover from Math_round_mono [OF b] have "Math_round x \<le> 100"
      using Math_round_of_int [of 100] by simp
    ultimately show ?thesis using 3 by (simp add: max_def min_def)
  qed
qed

lemma comfort_refines: "calculateComfortIndex t h w = comfortIndex_spec t h w"
proof -
  define tempF where "tempF = t * 9 / 5 + 32"
  define c1 :: real
    where "c1 = (if tempF < 60 \<or> tempF > 90 then 100 - \<bar>75 - tempF\<bar> * 2 else 100)"
  define c2 where "c2 = (if h < 30 \<or> h > 70 then c1 - \<bar>50 - h\<bar> * 0.5 else c1)"
  define c3 where "c3 = c2 * (if w > 5 then max 0.9 (1 - (w * 0.02)) else 1)"
  have src: "calculateComfortIndex t h w = max 0 (min 100 (Math_round c3))"
    unfolding calculateComfortIndex_def Let_def c3_def c2_def c1_def tempF_def by (rule refl)
  have s1: "(if 60 \<le> tempF \<and> tempF \<le> 90 then 100 else 100 - 2 * \<bar>75 - tempF\<bar>) = c1"
    unfolding c1_def by (cases "tempF < 60"; cases "tempF > 90"; simp)
  have s2: "(if 30 \<le> h \<and> h \<le> 70 then c1 else c1 - 0.5 * \<bar>50 - h\<bar>) = c2"
    unfolding c2_def by (cases "h < 30"; cases "h > 70"; simp)
  have s3: "(if w > 5 then c2 * max 0.9 (1 - 0.02 * w) else c2) = c3"
    unfolding c3_def by (simp add: mult.commute)
  have "comfortIndex_spec t h w =
      Math_round (max 0 (min 100
        (if w > 5
         then (if 30 \<le> h \<and> h \<le> 70
               then (if 60 \<le> tempF \<and> tempF \<le> 90 then 100 else 100 - 2 * \<bar>75 - tempF\<bar>)
               else (if 60 \<le> tempF \<and> tempF \<le> 90 then 100 else 100 - 2 * \<bar>75 - tempF\<bar>)
                    - 0.5 * \<bar>50 - h\<bar>) * max 0.9 (1 - 0.02 * w)
         else (if 30 \<le> h \<and> h \<le> 70
               then (if 60 \<le> tempF \<and> tempF \<le> 90 then 100 else 100 - 2 * \<bar>75 - tempF\<bar>)
               else (if 60 \<le> tempF \<and> tempF \<le> 90 then 100 else 100 - 2 * \<bar>75 - tempF\<bar>)
                    - 0.5 * \<bar>50 - h\<bar>))))"
    unfolding comfortIndex_spec_def Let_def tempF_def by (rule refl)
  also have "\<dots> = Math_round (max 0 (min 100 c3))"
    unfolding s1 s2 s3 by (rule refl)
  finally show ?thesis
    unfolding src by (simp only: Math_round_clamp)
qed

lemma comfort_shape: "\<exists>c. calculateComfortIndex t h w = max 0 (min 100 (Math_round c))"
  unfolding calculateComfortIndex_def Let_def by (rule exI) (rule refl)

lemma comfort_Ints: "calculateComfortIndex t h w \<in> \<int>"
proof -
  obtain c where "calculateComfortIndex t h w = max 0 (min 100 (Math_round c))"
    using comfort_shape by blast
  then show ?thesis
    using Math_round_Ints [of c] by (simp add: max_def min_def)
qed

lemma comfort_range: "0 \<le> calculateComfortIndex t h w \<and> calculateComfortIndex t h w \<le> 100"
proof -
  obtain c where "calculateComfortIndex t h w = max 0 (min 100 (Math_round c))"
    using comfort_shape by blast
  then show ?thesis by simp
qed

lemma comfort_optimal: "calculateComfortIndex (215 / 9) 50 0 = 100"
  by (simp add: calculateComfortIndex_def Math_round_def)

lemma comfort_hot: "calculateComfortIndex 35 50 0 = 60"
  by (simp add: calculateComfortIndex_def Math_round_def)

text \<open>
  C9. \<open>calculateComfortIndex\<close> computes the index that the specification describes
  (start at 100, temperature penalty outside 60..90 degrees Fahrenheit, humidity penalty
  outside 30..70 percent, wind factor above 5, clamp and round), its value is an integer
  between 0 and 100, it is exactly 100 at 75 degrees Fahrenheit (215/9 degrees Celsius),
  50 percent humidity and no wind, and strictly smaller at 95 degrees Fahrenheit
  (35 degrees Celsius) with the same humidity and wind.
\<close>

theorem calculateComfortIndex_correct:
  "calculateComfortIndex t h w = comfortIndex_spec t h w
   \<and> calculateComfortIndex t h w \<in> \<int>
   \<and> 0 \<le> calculateComfortIndex t h w \<and> calculateComfortIndex t h w \<le> 100
   \<and> (215 / 9 :: real) * 9 / 5 + 32 = 75 \<and> (35 :: real) * 9 / 5 + 32 = 95
   \<and> calculateComfortIndex (215 / 9) 50 0 = 100
   \<and> calculateComfortIndex 35 50 0 < calculateComfortIndex (215 / 9) 50 0"
  using comfort_refines [of t h w] comfort_Ints [of t h w] comfort_range [of t h w]
  by (simp add: comfort_optimal comfort_hot)

section \<open>Historical blending\<close>







text \<open>
  C10. The match compares the raw hour numbers: an observation made in hour 23 is never
  selected for the projected hour 0, and an observation made in hour 0 is never selected
  for the projected hour 23.
\<close>

theorem similarTimes_no_wrap:
  "(getHours (h_timestamp h) = 23 \<longrightarrow> h \<notin> set (similarTimes 0 history))
   \<and> (getHours (h_timestamp h) = 0 \<longrightarrow> h \<notin> set (similarTimes 23 history))"
  by (simp add: similarTimes_def)

theorem similarTimes_no_wrap_witness:
  "getHours (h_timestamp (obs 30 1704929400000)) = 23
   \<and> obs 30 1704929400000 \<notin> set (similarTimes 0 [obs 30 1704929400000])
   \<and> getHours (h_timestamp (obs 45 1704846600000)) = 0
   \<and> obs 45 1704846600000 \<notin> set (similarTimes 23 [obs 45 1704846600000])"
  using similarTimes_no_wrap [of "obs 30 1704929400000" "[obs 30 1704929400000]"]
    similarTimes_no_wrap [of "obs 45 1704846600000" "[obs 45 1704846600000]"]
  by (simp add: obs_def getHours_def)

section \<open>The effect of precipitation\<close>

lemma base_pos:
  assumes "0 < cw"
  shows "0 < thrillAdjust a (dayOfWeekAdjust d (timeOfDayAdjust h cw))"
proof -
  have 1: "0 < timeOfDayAdjust h cw"
    using assms by (simp add: timeOfDayAdjust_def)
  then have 2: "0 < dayOfWeekAdjust d (timeOfDayAdjust h cw)"
    by (simp add: dayOfWeekAdjust_def)
  then show ?thesis
    by (simp add: thrillAdjust_def Let_def)
qed

lemma historyAdjust_fst_strict_mono:
  "p < q \<Longrightarrow> fst (historyAdjust h hist (p, c)) < fst (historyAdjust h hist (q, c'))"
  by (simp add: historyAdjust_def Let_def)

lemma weatherAdjust_None: "weatherAdjust None a pc = pc"
  by (simp add: weatherAdjust_def)

lemma weatherAdjust_wet_outdoor:
  assumes "precipitation w = Some r" "0 < r" "a_type a \<noteq> ''dark_ride''" "a_type a \<noteq> ''show''"
  shows "fst (weatherAdjust (Some w) a (b, c)) = b * tempFactor w a * 0.6"
  using assms by (simp add: weatherAdjust_def Let_def orElse_def tempFactor_def)

lemma weatherAdjust_wet_indoor:
  assumes "precipitation w = Some r" "0 < r" "a_type a = ''dark_ride'' \<or> a_type a = ''show''"
  shows "fst (weatherAdjust (Some w) a (b, c)) = b * tempFactor w a * 1.5"
  using assms by (auto simp add: weatherAdjust_def Let_def orElse_def tempFactor_def)

lemma weatherAdjust_dry:
  "fst (weatherAdjust (Some (w\<lparr>precipitation := Some 0\<rparr>)) a (b, c)) = b * tempFactor w a"
  by (simp add: weatherAdjust_def Let_def orElse_def tempFactor_def)

text \<open>
  C7, as the code has it. Take a positive current wait and a weather snapshot with
  precipitation above 0.5, and hold the projected hour, the day, the history and the
  attraction fixed. For an attraction that is neither a dark ride nor a show, the
  pre-jitter prediction is strictly smaller than with the same snapshot without
  precipitation, and strictly smaller than with no snapshot at all; for a dark ride or a
  show it is strictly larger than both.
\<close>

theorem precipitation_effect:
  assumes "0 < cw" and "precipitation w = Some r" and "0.5 < r"
  shows "(a_type a \<noteq> ''dark_ride'' \<and> a_type a \<noteq> ''show'' \<longrightarrow>
            fst (preJitter h d cw hist (Some w) a)
              < fst (preJitter h d cw hist (Some (w\<lparr>precipitation := Some 0\<rparr>)) a)
          \<and> fst (preJitter h d cw hist (Some w) a) < fst (preJitter h d cw hist None a))
       \<and> (a_type a = ''dark_ride'' \<or> a_type a = ''show'' \<longrightarrow>
            fst (preJitter h d cw hist (Some w) a)
              > fst (preJitter h d cw hist (Some (w\<lparr>precipitation := Some 0\<rparr>)) a)
          \<and> fst (preJitter h d cw hist (Some w) a) > fst (preJitter h d cw hist None a))"
proof -
  define b where "b = thrillAdjust a (dayOfWeekAdjust d (timeOfDayAdjust h cw))"
  have b: "0 < b" unfolding b_def using assms(1) by (rule base_pos)
  have r: "0 < r" using assms(3) by simp
  have pj: "\<And>wx. preJitter h d cw hist wx a = historyAdjust h hist (weatherAdjust wx a (b, 0.8))"
    by (simp add: preJitter_def preBlend_def Let_def b_def)
  have pair: "\<And>wx. weatherAdjust wx a (b, 0.8)
      = (fst (weatherAdjust wx a (b, 0.8)), snd (weatherAdjust wx a (b, 0.8)))"
    by simp
  have mono: "\<And>wx wy. fst (weatherAdjust wx a (b, 0.8)) < fst (weatherAdjust wy a (b, 0.8))
      \<Longrightarrow> fst (preJitter h d cw hist wx a) < fst (preJitter h d cw hist wy a)"
  proof -
    fix wx wy
    assume lt: "fst (weatherAdjust wx a (b, 0.8)) < fst (weatherAdjust wy a (b, 0.8))"
    have "fst (historyAdjust h hist (fst (weatherAdjust wx a (b, 0.8)), snd (weatherAdjust wx a (b, 0.8))))
        < fst (historyAdjust h hist (fst (weatherAdjust wy a (b, 0.8)), snd (weatherAdjust wy a (b, 0.8))))"
      using lt by (rule historyAdjust_fst_strict_mono)
    then show "fst (preJitter h d cw hist wx a) < fst (preJitter h d cw hist wy a)"
      by (simp add: pj)
  qed
  have tf: "0 < tempFactor w a" "tempFactor w a \<le> 1.2"
    by (simp_all add: tempFactor_def)
  have none: "fst (weatherAdjust None a (b, 0.8)) = b"
    by (simp add: weatherAdjust_None)
  have dry: "fst (weatherAdjust (Some (w\<lparr>precipitation := Some 0\<rparr>)) a (b, 0.8)) = b * tempFactor w a"
    by (rule weatherAdjust_dry)
  have outdoor: "fst (preJitter h d cw hist (Some w) a)
              < fst (preJitter h d cw hist (Some (w\<lparr>precipitation := Some 0\<rparr>)) a)
          \<and> fst (preJitter h d cw hist (Some w) a) < fst (preJitter h d cw hist None a)"
    if t: "a_type a \<noteq> ''dark_ride''" "a_type a \<noteq> ''show''"
  proof -
    have wet: "fst (weatherAdjust (Some w) a (b, 0.8)) = b * tempFactor w a * 0.6"
      using assms(2) r t by (rule weatherAdjust_wet_outdoor)
    have "0 < b * tempFactor w a" using b tf(1) by simp
    then have 1: "b * tempFactor w a * 0.6 < b * tempFactor w a" by simp
    have "tempFactor w a * 0.6 < 1" using tf(2) by simp
    then have "b * (tempFactor w a * 0.6) < b * 1" using b by (simp only: mult_less_cancel_left_pos)
    then have 2: "b * tempFactor w a * 0.6 < b" by (simp add: mult.assoc)
    have "fst (weatherAdjust (Some w) a (b, 0.8))
        < fst (weatherAdjust (Some (w\<lparr>precipitation := Some 0\<rparr>)) a (b, 0.8))"
      unfolding wet dry by (rule 1)
    moreover have "fst (weatherAdjust (Some w) a (b, 0.8)) < fst (weatherAdjust None a (b, 0.8))"
      unfolding wet none by (rule 2)
    ultimately show ?thesis by (blast intro: mono)
  qed
  have indoor: "fst (preJitter h d cw hist (Some w) a)
              > fst (preJitter h d cw hist (Some (w\<lparr>precipitation := Some 0\<rparr>)) a)
          \<and> fst (preJitter h d cw hist (Some w) a) > fst (preJitter h d cw hist None a)"
    if t: "a_type a = ''dark_ride'' \<or> a_type a = ''show''"
  proof -
    have wet: "fst (weatherAdjust (Some w) a (b, 0.8)) = b * tempFactor w a * 1.5"
      using assms(2) r t by (rule weatherAdjust_wet_indoor)
    have "0 < b * tempFactor w a" using b tf(1) by simp
    then have 1: "b * tempFactor w a < b * tempFactor w a * 1.5" by simp
    have "0.9 \<le> tempFactor w a" by (simp add: tempFactor_def)
    then have "1 < tempFactor w a * 1.5" by simp
    then have "b * 1 < b * (tempFactor w a * 1.5)" using b by (simp only: mult_less_cancel_left_pos)
    then have 2: "b < b * tempFactor w a * 1.5" by (simp add: mult.assoc)
    have "fst (weatherAdjust (Some (w\<lparr>precipitation := Some 0\<rparr>)) a (b, 0.8))
        < fst (weatherAdjust (Some w) a (b, 0.8))"
      unfolding wet dry by (rule 1)
    moreover have "fst (weatherAdjust None a (b, 0.8)) < fst (weatherAdjust (Some w) a (b, 0.8))"
      unfolding wet none by (rule 2)
    ultimately show ?thesis by (blast intro: mono)
  qed
  show ?thesis using outdoor indoor by blast
qed

theorem precipitation_effect_witness:
  "fst (preJitter 13 3 40 [obs 30 1704880000000] (Some rain) (ride ''splash'' ''water_ride'' (Some 40)))
     < fst (preJitter 13 3 40 [obs 30 1704880000000] None (ride ''splash'' ''water_ride'' (Some 40)))
   \<and> fst (preJitter 13 3 40 [obs 30 1704880000000] (Some rain) (ride ''manor'' ''dark_ride'' (Some 40)))
     > fst (preJitter 13 3 40 [obs 30 1704880000000] None (ride ''manor'' ''dark_ride'' (Some 40)))
   \<and> fst (preJitter 13 3 40 [obs 30 1704880000000] (Some rain) (ride ''revue'' ''show'' (Some 40)))
     > fst (preJitter 13 3 40 [obs 30 1704880000000] (Some (rain\<lparr>precipitation := Some 0\<rparr>))
         (ride ''revue'' ''show'' (Some 40)))"
  using precipitation_effect [of 40 rain 2 "ride ''splash'' ''water_ride'' (Some 40)" 13 3 "[obs 30 1704880000000]"]
    precipitation_effect [of 40 rain 2 "ride ''manor'' ''dark_ride'' (Some 40)" 13 3 "[obs 30 1704880000000]"]
    precipitation_effect [of 40 rain 2 "ride ''revue'' ''show'' (Some 40)" 13 3 "[obs 30 1704880000000]"]
  by (simp add: rain_def ride_def)

text \<open>
  With a current wait of 0 the prediction before the jitter is 0 with and without rain:
  the decrease is not strict.
\<close>

theorem precipitation_zero_wait_counterexample:
  "precipitation rain = Some 2
   \<and> fst (preJitter 13 3 0 [] (Some rain) (ride ''splash'' ''water_ride'' (Some 0))) = 0
   \<and> fst (preJitter 13 3 0 [] None (ride ''splash'' ''water_ride'' (Some 0))) = 0
   \<and> \<not> (fst (preJitter 13 3 0 [] (Some rain) (ride ''splash'' ''water_ride'' (Some 0)))
        < fst (preJitter 13 3 0 [] None (ride ''splash'' ''water_ride'' (Some 0))))"
  by (simp add: preJitter_def preBlend_def historyAdjust_def weatherAdjust_def
      timeOfDayAdjust_def dayOfWeekAdjust_def thrillAdjust_def orElse_def rain_def ride_def)

section \<open>The end-to-end example\<close>





lemma round_72: "Math_round (max 0.3 (min 1.0 0.72) * 100) / 100 = 0.72"
  by (simp add: Math_round_def)








section \<open>The whole estimate\<close>

lemma dom_predictEach:
  "dom (predictEach e aid cw hist weather a k ws acc) = dom acc \<union> set ws"
  by (induction ws arbitrary: k acc) auto

lemma predictEach_cong:
  assumes "\<forall>i < length ws. clock e1 (Suc (k + i)) = clock e2 (Suc (k + i))"
    and "\<forall>i < length ws. draws e1 (k + i) = draws e2 (k + i)"
  shows "predictEach e1 aid cw hist weather a k ws acc
       = predictEach e2 aid cw hist weather a k ws acc"
  using assms
proof (induction ws arbitrary: k acc)
  case Nil
  then show ?case by simp
next
  case (Cons m ws)
  have c0: "clock e1 (Suc k) = clock e2 (Suc k)" and d0: "draws e1 k = draws e2 k"
    using Cons.prems by force+
  have c: "\<forall>i < length ws. clock e1 (Suc (Suc k + i)) = clock e2 (Suc (Suc k + i))"
    using Cons.prems(1) by force
  have d: "\<forall>i < length ws. draws e1 (Suc k + i) = draws e2 (Suc k + i)"
    using Cons.prems(2) by force
  show ?case
    by (simp only: predictEach.simps c0 d0 Cons.IH [OF c d])
qed

lemma generate_Some_iff:
  "generateWaitTimePrediction e aid ws = Some p \<Longrightarrow>
     (\<exists>a. attractionById e aid = Response (Some a) None)
     \<and> error (recentHistory e (clock e 0) aid) = None"
  unfolding generateWaitTimePrediction_def Let_def
  by (cases "attractionById e aid") (auto split: option.splits if_splits)

lemma generate_found:
  assumes "attractionById e aid = Response (Some a) None"
  shows "generateWaitTimePrediction e aid ws =
     (if error (recentHistory e (clock e 0) aid) \<noteq> None then None
      else Some \<lparr> attraction_id = aid,
                  current_wait = orElse (a_wait_time a) 0,
                  predictions = predictEach e aid (orElse (a_wait_time a) 0)
                     (historyOf e aid) (weatherOf e a) a 0 ws Map.empty,
                  factors = generatePredictionFactors (clock e (Suc (length ws)))
                     (historyOf e aid) (weatherOf e a) a,
                  alternative_attractions =
                     findAlternativeAttractions e (a_park_id a) (a_type a) (orElse (a_wait_time a) 0),
                  last_updated = clock e (Suc (Suc (length ws))),
                  confidence_interval = CHR 0xC2 # CHR 0xB1 # ''10 minutes'' \<rparr>)"
  unfolding generateWaitTimePrediction_def Let_def assms historyOf_def weatherOf_def by simp

lemma generate_fields:
  assumes "generateWaitTimePrediction e aid ws = Some p"
    and "attractionById e aid = Response (Some a) None"
  shows "predictions p = predictEach e aid (orElse (a_wait_time a) 0)
                     (historyOf e aid) (weatherOf e a) a 0 ws Map.empty"
    and "factors p = generatePredictionFactors (clock e (Suc (length ws)))
                     (historyOf e aid) (weatherOf e a) a"
    and "alternative_attractions p =
           findAlternativeAttractions e (a_park_id a) (a_type a) (orElse (a_wait_time a) 0)"
    and "current_wait p = orElse (a_wait_time a) 0"
  using assms(1) unfolding generate_found [OF assms(2)]
  by (auto split: if_splits)

lemma generate_not_found:
  assumes "\<not> (\<exists>a. attractionById e aid = Response (Some a) None)"
  shows "generateWaitTimePrediction e aid ws = None"
  using assms unfolding generateWaitTimePrediction_def Let_def
  by (cases "attractionById e aid") (auto split: option.splits)

lemma predictEach_other:
  "m \<notin> set ws \<Longrightarrow> predictEach e aid cw hist weather a k ws acc m = acc m"
  by (induction ws arbitrary: k acc) auto

lemma predictEach_entry:
  assumes "i < length ws" and "ws ! i \<notin> set (drop (Suc i) ws)"
  shows "predictEach e aid cw hist weather a k ws acc (ws ! i)
       = Some (predictWaitTime (clock e (Suc (k + i))) (draws e (k + i)) aid (of_int cw)
                 (ws ! i) hist weather a)"
  using assms
proof (induction ws arbitrary: k acc i)
  case Nil
  then show ?case by simp
next
  case (Cons m ws)
  show ?case
  proof (cases i)
    case 0
    with Cons.prems have "m \<notin> set ws" by simp
    with 0 show ?thesis by (simp add: predictEach_other)
  next
    case (Suc j)
    with Cons.prems have j: "j < length ws" "ws ! j \<notin> set (drop (Suc j) ws)" by simp_all
    from Cons.IH [OF j, of "Suc k"] Suc show ?thesis by simp
  qed
qed

text \<open>
  C2, as the code has it. The engine does not validate the windows: whenever an estimate
  is produced, the output mapping has an entry for exactly the requested windows, the
  positive ones and those that are zero or negative alike, and no window aborts the rest.
  The entry of a window is the result of \<open>predictWaitTime\<close> for that very window, with
  the clock reading and the random draw of its position in the list: a window \<open>w \<le> 0\<close>
  is estimated like any other, for the time \<open>now + w\<close> minutes, which is not in the
  future. (Of a window requested several times the last occurrence decides.)
\<close>

theorem windows_all_estimated:
  assumes "generateWaitTimePrediction e aid ws = Some p"
  shows "\<exists>a. attractionById e aid = Response (Some a) None
       \<and> dom (predictions p) = set ws
       \<and> (\<forall>i < length ws. ws ! i \<notin> set (drop (Suc i) ws) \<longrightarrow>
            predictions p (ws ! i)
              = Some (predictWaitTime (clock e (Suc i)) (draws e i) aid
                        (of_int (orElse (a_wait_time a) 0)) (ws ! i)
                        (historyOf e aid) (weatherOf e a) a))"
proof -
  obtain a where a: "attractionById e aid = Response (Some a) None"
    using assms generate_Some_iff by blast
  have pr: "predictions p = predictEach e aid (orElse (a_wait_time a) 0)
                     (historyOf e aid) (weatherOf e a) a 0 ws Map.empty"
    by (rule generate_fields(1) [OF assms a])
  have d: "dom (predictions p) = set ws"
    unfolding pr by (simp add: dom_predictEach)
  have v: "\<forall>i < length ws. ws ! i \<notin> set (drop (Suc i) ws) \<longrightarrow>
            predictions p (ws ! i)
              = Some (predictWaitTime (clock e (Suc i)) (draws e i) aid
                        (of_int (orElse (a_wait_time a) 0)) (ws ! i)
                        (historyOf e aid) (weatherOf e a) a)"
  proof (intro allI impI)
    fix i
    assume i: "i < length ws" and l: "ws ! i \<notin> set (drop (Suc i) ws)"
    from predictEach_entry [OF i l, of e aid "orElse (a_wait_time a) 0" "historyOf e aid"
        "weatherOf e a" a 0 Map.empty]
    show "predictions p (ws ! i)
              = Some (predictWaitTime (clock e (Suc i)) (draws e i) aid
                        (of_int (orElse (a_wait_time a) 0)) (ws ! i)
                        (historyOf e aid) (weatherOf e a) a)"
      unfolding pr by simp
  qed
  from a d v show ?thesis by blast
qed

lemma sample_attraction:
  "attractionById sample_env ''coaster''
     = Response (Some (ride ''coaster'' ''roller_coaster'' (Some 40))) None"
  by (simp add: attractionById_def sample_env_def single_def ride_def)

lemma sample_history:
  "recentHistory sample_env wednesday_1250 ''coaster''
     = Response (Some [obs 30 1704880000000]) None"
  by (simp add: recentHistory_def sample_env_def obs_def wednesday_1250_def)

lemma sample_weather:
  "data (latestWeather sample_env ''park'') = Some \<lparr> w_park_id = ''park'',
      w_timestamp = 1704890000000, w_current_conditions = rain \<rparr>"
  by (simp add: latestWeather_def sample_env_def single_def)

lemma sample_alternatives:
  "findAlternativeAttractions sample_env ''park'' ''roller_coaster'' 40
     = [''comet'', ''mouse'', ''viper'']"
  by (simp add: findAlternativeAttractions_def alternativesQuery_def sample_env_def ride_def
      waitOf_def)


lemma sample_historyOf: "historyOf sample_env ''coaster'' = [obs 30 1704880000000]"
proof -
  have "clock sample_env 0 = wednesday_1250" by (simp add: sample_env_def)
  then show ?thesis by (simp add: historyOf_def sample_history)
qed

lemma sample_weatherOf:
  "weatherOf sample_env (ride ''coaster'' ''roller_coaster'' (Some 40)) = Some rain"
proof -
  have "a_park_id (ride ''coaster'' ''roller_coaster'' (Some 40)) = ''park''"
    by (simp add: ride_def)
  then show ?thesis by (simp add: weatherOf_def sample_weather)
qed

lemma sample_history_ok: "error (recentHistory sample_env (clock sample_env 0) ''coaster'') = None"
proof -
  have "clock sample_env 0 = wednesday_1250" by (simp add: sample_env_def)
  then show ?thesis by (simp add: sample_history)
qed

lemma sample_generate:
  "generateWaitTimePrediction sample_env ''coaster'' ws \<noteq> None"
  unfolding generate_found [OF sample_attraction] using sample_history_ok by simp

lemma sample_estimate_past:
  "predictWaitTime wednesday_1250 (1 / 2) ''coaster'' 40 (- 180) [obs 30 1704880000000]
      (Some rain) (ride ''coaster'' ''roller_coaster'' (Some 40))
    = \<lparr> predicted_wait = 22, confidence = 0.7 \<rparr>"
proof -
  have h: "getHours (wednesday_1250 + (- 180) * 60 * 1000) = 9"
    and d: "getDay (wednesday_1250 + (- 180) * 60 * 1000) = 3"
    by (simp_all add: wednesday_1250_def getHours_def getDay_def)
  have pb: "preBlend 9 3 40 (Some rain) (ride ''coaster'' ''roller_coaster'' (Some 40))
      = (18.48, 0.64)"
    by (simp add: preBlend_def timeOfDayAdjust_def dayOfWeekAdjust_def thrillAdjust_def
        orElse_def weatherAdjust_def ride_def rain_def)
  have pj: "preJitter 9 3 40 [obs 30 1704880000000] (Some rain)
      (ride ''coaster'' ''roller_coaster'' (Some 40)) = (21.936, 0.704)"
    by (simp add: preJitter_def pb historyAdjust_def similarTimes_def avgHistoricalWait_def
        obs_def getHours_def)
  have 1: "predicted_wait (predictWaitTime wednesday_1250 (1 / 2) ''coaster'' 40 (- 180)
      [obs 30 1704880000000] (Some rain) (ride ''coaster'' ''roller_coaster'' (Some 40))) = 22"
    unfolding predicted_wait_unfold h d pj by (simp add: Math_round_def)
  have 2: "confidence (predictWaitTime wednesday_1250 (1 / 2) ''coaster'' 40 (- 180)
      [obs 30 1704880000000] (Some rain) (ride ''coaster'' ''roller_coaster'' (Some 40))) = 0.7"
    unfolding confidence_unfold h d pj by (simp add: Math_round_def)
  show ?thesis
    using 1 2 by (cases "predictWaitTime wednesday_1250 (1 / 2) ''coaster'' 40 (- 180)
      [obs 30 1704880000000] (Some rain) (ride ''coaster'' ''roller_coaster'' (Some 40))") simp
qed

lemma sample_estimate_ahead:
  "predictWaitTime wednesday_1250 (1 / 2) ''coaster'' 40 15 [obs 30 1704880000000]
      (Some rain) (ride ''coaster'' ''roller_coaster'' (Some 40))
    = \<lparr> predicted_wait = 34, confidence = 0.58 \<rparr>"
proof -
  have h: "getHours (wednesday_1250 + 15 * 60 * 1000) = 13"
    and d: "getDay (wednesday_1250 + 15 * 60 * 1000) = 3"
    by (simp_all add: wednesday_1250_def getHours_def getDay_def)
  have pb: "preBlend 13 3 40 (Some rain) (ride ''coaster'' ''roller_coaster'' (Some 40))
      = (34.32, 0.64)"
    by (simp add: preBlend_def timeOfDayAdjust_def dayOfWeekAdjust_def thrillAdjust_def
        orElse_def weatherAdjust_def ride_def rain_def)
  have pj: "preJitter 13 3 40 [obs 30 1704880000000] (Some rain)
      (ride ''coaster'' ''roller_coaster'' (Some 40)) = (34.32, 0.576)"
    by (simp add: preJitter_def pb historyAdjust_def similarTimes_def obs_def getHours_def)
  have 1: "predicted_wait (predictWaitTime wednesday_1250 (1 / 2) ''coaster'' 40 15
      [obs 30 1704880000000] (Some rain) (ride ''coaster'' ''roller_coaster'' (Some 40))) = 34"
    unfolding predicted_wait_unfold h d pj by (simp add: Math_round_def)
  have 2: "confidence (predictWaitTime wednesday_1250 (1 / 2) ''coaster'' 40 15
      [obs 30 1704880000000] (Some rain) (ride ''coaster'' ''roller_coaster'' (Some 40))) = 0.58"
    unfolding confidence_unfold h d pj by (simp add: Math_round_def)
  show ?thesis
    using 1 2 by (cases "predictWaitTime wednesday_1250 (1 / 2) ''coaster'' 40 15
      [obs 30 1704880000000] (Some rain) (ride ''coaster'' ''roller_coaster'' (Some 40))") simp
qed

lemma sample_wait: "orElse (a_wait_time (ride ''coaster'' ''roller_coaster'' (Some 40))) 0 = 40"
  by (simp add: orElse_def ride_def)

lemma sample_readings:
  "clock sample_env k = wednesday_1250" "draws sample_env k = 1 / 2"
  by (simp_all add: sample_env_def)

theorem windows_all_estimated_witness:
  "\<exists>p. generateWaitTimePrediction sample_env ''coaster'' [- 180, 15] = Some p
       \<and> dom (predictions p) = {- 180, 15}
       \<and> predictions p (- 180) = Some \<lparr> predicted_wait = 22, confidence = 0.7 \<rparr>
       \<and> predictions p 15 = Some \<lparr> predicted_wait = 34, confidence = 0.58 \<rparr>"
proof -
  obtain p where p: "generateWaitTimePrediction sample_env ''coaster'' [- 180, 15] = Some p"
    using sample_generate [of "[- 180, 15]"] by blast
  let ?ws = "[- 180, 15] :: int list"
  from windows_all_estimated [OF p] obtain a
    where a: "attractionById sample_env ''coaster'' = Response (Some a) None"
      and d: "dom (predictions p) = set ?ws"
      and v: "\<forall>i < length ?ws. ?ws ! i \<notin> set (drop (Suc i) ?ws) \<longrightarrow>
            predictions p (?ws ! i)
              = Some (predictWaitTime (clock sample_env (Suc i)) (draws sample_env i) ''coaster''
                        (of_int (orElse (a_wait_time a) 0)) (?ws ! i)
                        (historyOf sample_env ''coaster'') (weatherOf sample_env a) a)"
    by (elim exE conjE)
  from a have a': "a = ride ''coaster'' ''roller_coaster'' (Some 40)"
    unfolding sample_attraction by simp
  have 0: "predictions p (- 180) = Some \<lparr> predicted_wait = 22, confidence = 0.7 \<rparr>"
    using v [rule_format, of 0]
    unfolding a' sample_wait sample_readings sample_historyOf sample_weatherOf
    by (simp add: sample_estimate_past)
  have 1: "predictions p 15 = Some \<lparr> predicted_wait = 34, confidence = 0.58 \<rparr>"
    using v [rule_format, of 1]
    unfolding a' sample_wait sample_readings sample_historyOf sample_weatherOf
    by (simp add: sample_estimate_ahead)
  from d have "dom (predictions p) = {- 180, 15}" by simp
  with p 0 1 show ?thesis by blast
qed

text \<open>
  The request for the windows -180 and 15, made at 12:50, is answered with an entry for
  -180: the estimate for 9:50, three hours before the request, in the early-morning
  band and blended with the observation of that hour.
\<close>

theorem nonpositive_window_counterexample:
  "\<exists>p. generateWaitTimePrediction sample_env ''coaster'' [- 180, 15] = Some p
       \<and> predictions p (- 180) = Some \<lparr> predicted_wait = 22, confidence = 0.7 \<rparr>"
proof -
  obtain p where p: "generateWaitTimePrediction sample_env ''coaster'' [- 180, 15] = Some p"
    using sample_generate [of "[- 180, 15]"] by blast
  have "predictions p (- 180) = Some (predictWaitTime wednesday_1250 (1 / 2) ''coaster'' 40
      (- 180) [obs 30 1704880000000] (Some rain) (ride ''coaster'' ''roller_coaster'' (Some 40)))"
    unfolding generate_fields(1) [OF p sample_attraction] sample_historyOf sample_weatherOf
      sample_wait
    by (simp add: sample_readings)
  with p show ?thesis unfolding sample_estimate_past by blast
qed

lemma attractionById_weather_indep:
  "attractionById (e\<lparr>weather_data := wd, unavailable := (unavailable e)(WeatherLookup := b)\<rparr>) aid
     = attractionById e aid"
  by (simp add: attractionById_def)

lemma recentHistory_weather_indep:
  "recentHistory (e\<lparr>weather_data := wd, unavailable := (unavailable e)(WeatherLookup := b)\<rparr>) t aid
     = recentHistory e t aid"
  by (simp add: recentHistory_def)

lemma alternatives_weather_indep:
  "findAlternativeAttractions
       (e\<lparr>weather_data := wd, unavailable := (unavailable e)(WeatherLookup := b)\<rparr>) park ty cw
     = findAlternativeAttractions e park ty cw"
  by (simp add: findAlternativeAttractions_def alternativesQuery_def)

lemma weatherOf_failed: "unavailable e WeatherLookup \<Longrightarrow> weatherOf e a = None"
  by (simp add: weatherOf_def latestWeather_def)

lemma weatherOf_empty:
  "weatherOf (e\<lparr>weather_data := [], unavailable := (unavailable e)(WeatherLookup := False)\<rparr>) a = None"
  by (simp add: weatherOf_def latestWeather_def single_def)

lemma historyOf_weather_indep:
  "historyOf (e\<lparr>weather_data := wd, unavailable := (unavailable e)(WeatherLookup := b)\<rparr>) aid
     = historyOf e aid"
  by (simp add: historyOf_def recentHistory_def)

lemma predictEach_env_indep:
  "predictEach (e\<lparr>weather_data := wd, unavailable := f\<rparr>) aid cw hist weather a k ws acc
     = predictEach e aid cw hist weather a k ws acc"
  by (rule predictEach_cong) simp_all

lemma factors_no_weather:
  "''weather_conditions'' \<notin> set (generatePredictionFactors now hist None a)"
  by (simp add: generatePredictionFactors_def Let_def)

text \<open>
  C1, as the code has it, for an attraction that the attraction lookup resolves.
  A failed history lookup aborts the estimate: the result is \<open>null\<close>. When the history
  lookup succeeds and the weather lookup fails, a prediction is produced all the same;
  it is the prediction computed without a weather snapshot (every window is estimated
  with weather absent, and the factors do not list weather conditions), the same one
  that an empty weather table gives.
\<close>

theorem lookup_failures:
  assumes "attractionById e aid = Response (Some a) None"
  shows "(unavailable e HistoryLookup \<longrightarrow> generateWaitTimePrediction e aid ws = None)
       \<and> (\<not> unavailable e HistoryLookup \<and> unavailable e WeatherLookup \<longrightarrow>
            (\<exists>p. generateWaitTimePrediction e aid ws = Some p
                 \<and> ''weather_conditions'' \<notin> set (factors p)
                 \<and> predictions p = predictEach e aid (orElse (a_wait_time a) 0)
                                       (historyOf e aid) None a 0 ws Map.empty
                 \<and> generateWaitTimePrediction
                       (e\<lparr>weather_data := [],
                          unavailable := (unavailable e)(WeatherLookup := False)\<rparr>) aid ws
                     = Some p))"
proof (intro conjI impI)
  assume "unavailable e HistoryLookup"
  then have "error (recentHistory e (clock e 0) aid) \<noteq> None"
    by (simp add: recentHistory_def)
  then show "generateWaitTimePrediction e aid ws = None"
    unfolding generate_found [OF assms] by simp
next
  assume h: "\<not> unavailable e HistoryLookup \<and> unavailable e WeatherLookup"
  let ?e' = "e\<lparr>weather_data := [], unavailable := (unavailable e)(WeatherLookup := False)\<rparr>"
  have ok: "error (recentHistory e (clock e 0) aid) = None"
    using h by (simp add: recentHistory_def)
  have w: "weatherOf e a = None" using h by (simp add: weatherOf_failed)
  have a': "attractionById ?e' aid = Response (Some a) None"
    unfolding attractionById_weather_indep by (rule assms)
  have ok': "error (recentHistory ?e' (clock ?e' 0) aid) = None"
    unfolding recentHistory_weather_indep using ok by simp
  have c: "\<And>k. clock ?e' k = clock e k" by simp
  obtain p where p: "generateWaitTimePrediction e aid ws = Some p"
    unfolding generate_found [OF assms] using ok by simp
  have f: "factors p = generatePredictionFactors (clock e (Suc (length ws))) (historyOf e aid) None a"
    using generate_fields(2) [OF p assms] unfolding w .
  have pr: "predictions p = predictEach e aid (orElse (a_wait_time a) 0)
                                       (historyOf e aid) None a 0 ws Map.empty"
    using generate_fields(1) [OF p assms] unfolding w .
  have "generateWaitTimePrediction ?e' aid ws = generateWaitTimePrediction e aid ws"
    unfolding generate_found [OF assms] generate_found [OF a'] recentHistory_weather_indep
      historyOf_weather_indep weatherOf_empty w predictEach_env_indep
      alternatives_weather_indep c
    by (rule refl)
  then show "\<exists>p. generateWaitTimePrediction e aid ws = Some p
                 \<and> ''weather_conditions'' \<notin> set (factors p)
                 \<and> predictions p = predictEach e aid (orElse (a_wait_time a) 0)
                                       (historyOf e aid) None a 0 ws Map.empty
                 \<and> generateWaitTimePrediction ?e' aid ws = Some p"
    using p f pr factors_no_weather by simp
qed


lemma history_down_attraction:
  "attractionById history_down ''coaster''
     = Response (Some (ride ''coaster'' ''roller_coaster'' (Some 40))) None"
  by (simp add: attractionById_def history_down_def sample_env_def single_def ride_def)

lemma weather_down_attraction:
  "attractionById weather_down ''coaster''
     = Response (Some (ride ''coaster'' ''roller_coaster'' (Some 40))) None"
  by (simp add: attractionById_def weather_down_def sample_env_def single_def ride_def)

theorem lookup_failures_witness:
  "generateWaitTimePrediction history_down ''coaster'' [15] = None
   \<and> (\<exists>p. generateWaitTimePrediction weather_down ''coaster'' [15] = Some p
          \<and> ''weather_conditions'' \<notin> set (factors p))"
proof -
  have h: "unavailable history_down HistoryLookup"
    by (simp add: history_down_def)
  have w: "\<not> unavailable weather_down HistoryLookup \<and> unavailable weather_down WeatherLookup"
    by (simp add: weather_down_def)
  from lookup_failures [OF history_down_attraction, of "[15]"] h
  have 1: "generateWaitTimePrediction history_down ''coaster'' [15] = None" by blast
  from lookup_failures [OF weather_down_attraction, of "[15]"] w
  have 2: "\<exists>p. generateWaitTimePrediction weather_down ''coaster'' [15] = Some p
          \<and> ''weather_conditions'' \<notin> set (factors p)" by blast
  from 1 2 show ?thesis by blast
qed

text \<open>
  The attraction is found and the history lookup fails: no prediction is produced.
\<close>

theorem history_failure_counterexample:
  "attractionById history_down ''coaster''
     = Response (Some (ride ''coaster'' ''roller_coaster'' (Some 40))) None
   \<and> unavailable history_down HistoryLookup
   \<and> generateWaitTimePrediction history_down ''coaster'' [15] = None"
proof -
  have h: "unavailable history_down HistoryLookup"
    by (simp add: history_down_def)
  then have "error (recentHistory history_down (clock history_down 0) ''coaster'') \<noteq> None"
    by (simp add: recentHistory_def)
  then have "generateWaitTimePrediction history_down ''coaster'' [15] = None"
    unfolding generate_found [OF history_down_attraction] by simp
  with h history_down_attraction show ?thesis by blast
qed

text \<open>
  C6. Two runs of the estimate for the same attraction identifier and the same windows
  give the same result (the same entries for the windows, factors, alternatives and time
  stamp, or both none) whenever the two stores answer the four lookups alike, the clocks
  agree on the readings taken during the run and the random sources agree on the draws
  consumed, one for each window. Nothing else of the stores, the clocks or the random
  sources influences the result.
\<close>

theorem generateWaitTimePrediction_deterministic:
  assumes "attractionById e1 aid = attractionById e2 aid"
    and "\<forall>t. recentHistory e1 t aid = recentHistory e2 t aid"
    and "\<forall>park. latestWeather e1 park = latestWeather e2 park"
    and "\<forall>park ty w. findAlternativeAttractions e1 park ty w
                        = findAlternativeAttractions e2 park ty w"
    and "\<forall>k \<le> length ws + 2. clock e1 k = clock e2 k"
    and "\<forall>k < length ws. draws e1 k = draws e2 k"
  shows "generateWaitTimePrediction e1 aid ws = generateWaitTimePrediction e2 aid ws"
proof (cases "\<exists>a. attractionById e1 aid = Response (Some a) None")
  case False
  then have "\<not> (\<exists>a. attractionById e2 aid = Response (Some a) None)"
    using assms(1) by simp
  with False show ?thesis by (simp add: generate_not_found)
next
  case True
  then obtain a where a1: "attractionById e1 aid = Response (Some a) None" by blast
  then have a2: "attractionById e2 aid = Response (Some a) None"
    using assms(1) by simp
  have c0: "clock e1 0 = clock e2 0"
    and cn: "clock e1 (Suc (length ws)) = clock e2 (Suc (length ws))"
    and cl: "clock e1 (Suc (Suc (length ws))) = clock e2 (Suc (Suc (length ws)))"
    using assms(5) by simp_all
  have rh: "recentHistory e1 (clock e1 0) aid = recentHistory e2 (clock e2 0) aid"
    using assms(2) c0 by simp
  then have h: "historyOf e1 aid = historyOf e2 aid"
    by (simp add: historyOf_def)
  have w: "weatherOf e1 a = weatherOf e2 a"
    using assms(3) by (simp add: weatherOf_def)
  have alt: "\<And>park ty w. findAlternativeAttractions e1 park ty w
                        = findAlternativeAttractions e2 park ty w"
    using assms(4) by simp
  have ck: "\<forall>i < length ws. clock e1 (Suc (0 + i)) = clock e2 (Suc (0 + i))"
    using assms(5) by simp
  have dk: "\<forall>i < length ws. draws e1 (0 + i) = draws e2 (0 + i)"
    using assms(6) by simp
  have pe: "\<And>cw hist weather acc. predictEach e1 aid cw hist weather a 0 ws acc
        = predictEach e2 aid cw hist weather a 0 ws acc"
    using ck dk by (rule predictEach_cong)
  show ?thesis
    unfolding generate_found [OF a1] generate_found [OF a2] rh h w alt pe cn cl
    by (rule refl)
qed


theorem generateWaitTimePrediction_deterministic_witness:
  "wait_times sample_env \<noteq> wait_times sample_env2
   \<and> draws sample_env 2 \<noteq> draws sample_env2 2
   \<and> generateWaitTimePrediction sample_env ''coaster'' [15, 30] \<noteq> None
   \<and> generateWaitTimePrediction sample_env ''coaster'' [15, 30]
       = generateWaitTimePrediction sample_env2 ''coaster'' [15, 30]"
proof -
  have 1: "attractionById sample_env ''coaster'' = attractionById sample_env2 ''coaster''"
    by (simp add: attractionById_def sample_env2_def)
  have 2: "\<forall>t. recentHistory sample_env t ''coaster'' = recentHistory sample_env2 t ''coaster''"
    by (simp add: recentHistory_def sample_env2_def)
  have 3: "\<forall>park. latestWeather sample_env park = latestWeather sample_env2 park"
    by (simp add: latestWeather_def sample_env2_def)
  have 4: "\<forall>park ty w. findAlternativeAttractions sample_env park ty w
                        = findAlternativeAttractions sample_env2 park ty w"
    by (simp add: findAlternativeAttractions_def alternativesQuery_def sample_env2_def)
  have 5: "\<forall>k \<le> length [15, 30 :: int] + 2. clock sample_env k = clock sample_env2 k"
    by (simp add: sample_env2_def sample_env_def)
  have 6: "\<forall>k < length [15, 30 :: int]. draws sample_env k = draws sample_env2 k"
    by (simp add: sample_env2_def sample_env_def)
  have 7: "wait_times sample_env \<noteq> wait_times sample_env2"
    by (simp add: sample_env2_def)
  have 8: "draws sample_env 2 \<noteq> draws sample_env2 2"
    by (simp add: sample_env2_def sample_env_def)
  from generateWaitTimePrediction_deterministic [OF 1 2 3 4 5 6] 7 8
    sample_generate [of "[15, 30]"]
  show ?thesis by blast
qed

lemma single_Some:
  "single rows = Response (Some a) None \<Longrightarrow> rows = [a]"
  by (cases rows rule: list.exhaust; cases "tl rows")
     (auto simp: single_def split: list.splits)

lemma attractionById_unique:
  assumes "attractionById e aid = Response (Some a) None"
  shows "a_id a = aid \<and> (\<forall>r \<in> set (attractions e). a_id r = aid \<longrightarrow> r = a)"
proof -
  have f: "filter (\<lambda>a. a_id a = aid) (attractions e) = [a]"
    using assms by (auto simp: attractionById_def single_Some split: if_splits)
  then have "set (filter (\<lambda>a. a_id a = aid) (attractions e)) = {a}" by simp
  then show ?thesis by auto
qed

lemma alternatives_rows:
  "\<exists>rows. findAlternativeAttractions e park ty cw = map a_id rows
     \<and> length rows \<le> 3
     \<and> (\<forall>a \<in> set rows. a \<in> set (attractions e) \<and> a_current_status a = Open
            \<and> a_park_id a = park \<and> a_type a = ty
            \<and> (\<exists>w. a_wait_time a = Some w \<and> w < cw))
     \<and> sorted (map waitOf rows)"
proof (cases "unavailable e AlternativesLookup")
  case True
  then have "findAlternativeAttractions e park ty cw = map a_id []"
    by (simp add: findAlternativeAttractions_def alternativesQuery_def)
  then show ?thesis by (intro exI [of _ "[]"]) simp
next
  case False
  define P :: "attraction \<Rightarrow> bool" where "P = (\<lambda>a. a_park_id a = park \<and> a_type a = ty \<and> a_current_status a = Open
      \<and> (case a_wait_time a of None \<Rightarrow> False | Some w \<Rightarrow> w < cw))"
  define rows where "rows = take 3 (sort_key waitOf (filter P (attractions e)))"
  have r: "findAlternativeAttractions e park ty cw = map a_id rows"
    using False
    by (simp add: findAlternativeAttractions_def alternativesQuery_def rows_def P_def)
  have len: "length rows \<le> 3" by (simp add: rows_def)
  have sub: "set rows \<subseteq> set (filter P (attractions e))"
  proof -
    have "set rows \<subseteq> set (sort_key waitOf (filter P (attractions e)))"
      unfolding rows_def by (rule set_take_subset)
    then show ?thesis by simp
  qed
  have props: "\<forall>a \<in> set rows. a \<in> set (attractions e) \<and> a_current_status a = Open
            \<and> a_park_id a = park \<and> a_type a = ty
            \<and> (\<exists>w. a_wait_time a = Some w \<and> w < cw)"
    using sub by (auto simp: P_def split: option.splits)
  have "sorted (map waitOf (sort_key waitOf (filter P (attractions e))))"
    by (rule sorted_sort_key)
  then have "sorted (take 3 (map waitOf (sort_key waitOf (filter P (attractions e)))))"
    by (rule sorted_wrt_take)
  then have srt: "sorted (map waitOf rows)"
    by (simp add: rows_def take_map)
  from r len props srt show ?thesis by blast
qed

lemma alternatives_not_self:
  assumes "generateWaitTimePrediction e aid ws = Some p"
  shows "aid \<notin> set (alternative_attractions p)"
proof
  assume mem: "aid \<in> set (alternative_attractions p)"
  obtain a where a: "attractionById e aid = Response (Some a) None"
    using assms generate_Some_iff by blast
  have alt: "alternative_attractions p =
      findAlternativeAttractions e (a_park_id a) (a_type a) (orElse (a_wait_time a) 0)"
    by (rule generate_fields(3) [OF assms a])
  obtain rows where rows: "alternative_attractions p = map a_id rows"
    and props: "\<forall>r \<in> set rows. r \<in> set (attractions e) \<and> a_current_status r = Open
            \<and> a_park_id r = a_park_id a \<and> a_type r = a_type a
            \<and> (\<exists>w. a_wait_time r = Some w \<and> w < orElse (a_wait_time a) 0)"
    unfolding alt using alternatives_rows [of e "a_park_id a" "a_type a" "orElse (a_wait_time a) 0"]
    by blast
  from mem rows obtain r where r: "r \<in> set rows" "a_id r = aid" by auto
  with props have "r \<in> set (attractions e)" by blast
  with r(2) attractionById_unique [OF a] have "r = a" by blast
  with props r(1) obtain w where "a_wait_time a = Some w" "w < orElse (a_wait_time a) 0"
    by blast
  then show False by (simp add: orElse_def split: if_splits)
qed

text \<open>
  C8. The alternatives are the identifiers of at most three rows of the attractions
  table, each open, of the given park and type, with a wait strictly below the queried
  wait, in ascending order of wait. An estimate never lists the attraction it is for
  among its alternatives. The result is a function of the attractions table and of the
  availability of the lookup alone: two stores that agree on these give the same list.
\<close>

theorem findAlternativeAttractions_sound:
  "(\<exists>rows. findAlternativeAttractions e park ty cw = map a_id rows
       \<and> length rows \<le> 3
       \<and> (\<forall>a \<in> set rows. a \<in> set (attractions e) \<and> a_current_status a = Open
              \<and> a_park_id a = park \<and> a_type a = ty
              \<and> (\<exists>w. a_wait_time a = Some w \<and> w < cw))
       \<and> sorted (map waitOf rows))
   \<and> (\<forall>p. generateWaitTimePrediction e aid ws = Some p
          \<longrightarrow> aid \<notin> set (alternative_attractions p))
   \<and> (attractions e' = attractions e
        \<and> unavailable e' AlternativesLookup = unavailable e AlternativesLookup
        \<longrightarrow> findAlternativeAttractions e' park ty cw = findAlternativeAttractions e park ty cw)"
proof (intro conjI)
  show "attractions e' = attractions e
        \<and> unavailable e' AlternativesLookup = unavailable e AlternativesLookup
        \<longrightarrow> findAlternativeAttractions e' park ty cw = findAlternativeAttractions e park ty cw"
    by (simp add: findAlternativeAttractions_def alternativesQuery_def)
qed (use alternatives_rows alternatives_not_self in blast)+


theorem findAlternativeAttractions_sound_witness:
  "findAlternativeAttractions sample_env ''park'' ''roller_coaster'' 40
     = [''comet'', ''mouse'', ''viper'']
   \<and> (\<exists>rows. [''comet'', ''mouse'', ''viper''] = map a_id rows \<and> length rows \<le> 3
          \<and> sorted (map waitOf rows))
   \<and> (\<exists>p. generateWaitTimePrediction sample_env ''coaster'' [15] = Some p
          \<and> ''coaster'' \<notin> set (alternative_attractions p))
   \<and> findAlternativeAttractions sample_env2 ''park'' ''roller_coaster'' 40
     = findAlternativeAttractions sample_env ''park'' ''roller_coaster'' 40"
proof -
  note t = findAlternativeAttractions_sound [of sample_env "''park''" "''roller_coaster''" 40
      "''coaster''" "[15]" sample_env2]
  have same: "attractions sample_env2 = attractions sample_env
      \<and> unavailable sample_env2 AlternativesLookup = unavailable sample_env AlternativesLookup"
    by (simp add: sample_env2_def)
  obtain p where p: "generateWaitTimePrediction sample_env ''coaster'' [15] = Some p"
    using sample_generate [of "[15]"] by blast
  from t p have 1: "''coaster'' \<notin> set (alternative_attractions p)" by blast
  from t same have 2: "findAlternativeAttractions sample_env2 ''park'' ''roller_coaster'' 40
     = findAlternativeAttractions sample_env ''park'' ''roller_coaster'' 40" by blast
  from t have "\<exists>rows. findAlternativeAttractions sample_env ''park'' ''roller_coaster'' 40
          = map a_id rows \<and> length rows \<le> 3 \<and> sorted (map waitOf rows)"
    by blast
  then have 3: "\<exists>rows. [''comet'', ''mouse'', ''viper''] = map a_id rows \<and> length rows \<le> 3
          \<and> sorted (map waitOf rows)"
    unfolding sample_alternatives .
  from 1 2 3 p sample_alternatives show ?thesis by blast
qed

end
